theory Spec2Isabelle
  imports Main
begin

section \<open>Data model\<close>

text \<open>
  A file entry of the doubly-linked list that \<^verbatim>\<open>main\<close> keeps in \<^verbatim>\<open>head\<close>. The list is
  modelled as a HOL list in insertion order; \<^verbatim>\<open>rewind_list\<close> is then the identity.
  \<^verbatim>\<open>fsize_t\<close> and \<^verbatim>\<open>fnum_t\<close> are read and printed with \<^verbatim>\<open>%lld\<close> in the source, so
  they are integers of the \<^verbatim>\<open>long long\<close> range; counters are not modelled as wrapping.
\<close>

record file_entry =
  fe_path :: string
  fe_size :: int
  fe_partition_index :: "nat option"

record partition =
  p_size :: int
  p_num_files :: int

record program_options =
  num_parts :: int
  max_entries :: int
  max_size :: int
  in_filename :: "string option"
  arbitrary_values :: bool
  out_filename :: "string option"
  dir_depth :: int
  add_slash :: bool
  empty_dirs :: bool
  dnr_empty :: bool
  verbose :: int
  leaf_dirs :: bool
  live_mode :: bool
  pre_part_hook :: "string option"
  post_part_hook :: "string option"
  follow_symbolic_links :: bool
  cross_fs_boundaries :: bool
  preload_size :: int
  overload_size :: int
  round_size :: int

text \<open>
  What a run does, in order: a line on stderr (without
  its newline), the usage and version banners, the status line
  \<^verbatim>\<open>"%lld file(s) found."\<close>, a call of the crawler on a path, a call of
  \<^verbatim>\<open>handle_file_entry\<close> with a path and a size, the opening of an input file, the
  assignment of the entry at a list position to a partition, and the calls that print the
  partition summary and write the manifests.
\<close>

datatype event =
    Stderr string
  | Usage
  | Version
  | StatusFound int
  | Crawl string
  | HandleEntry string int
  | Fopen string
  | Assign nat nat
  | DispatchByLimits
  | PrintPartitions "partition list"
  | PrintFileEntries "file_entry list" "string option" int

record run_state =
  totalfiles :: int
  head :: "file_entry list"
  log :: "event list"

text \<open>
  An input stream as \<^verbatim>\<open>fgets\<close> delivers it: the successive buffers it returns (each ends
  with a newline when one was read) and whether \<^verbatim>\<open>ferror\<close> is set at the end. A string
  is the list of the bytes of a C string, without the final NUL; NUL bytes in the input are
  not modelled.
\<close>

record in_stream =
  chunks :: "string list"
  read_error :: bool

record dispatch_state =
  d_entries :: "file_entry list"
  d_parts :: "partition list"
  d_placed :: "(nat \<times> nat) list"

text \<open>
  The host and the functions that \<^verbatim>\<open>fpart.c\<close> calls and that are defined in the other
  translation units (\<^verbatim>\<open>utils.c\<close>, \<^verbatim>\<open>file_entry.c\<close>, \<^verbatim>\<open>partition.c\<close>,
  \<^verbatim>\<open>dispatch.c\<close>). They are parameters of the model:
  \<^item> \<open>malloc_ok n\<close>: \<^verbatim>\<open>malloc(n)\<close> returns a non-null pointer; \<open>sizeof_ptr\<close>: the size of
    a pointer;
  \<^item> \<open>LONG_MAX\<close>: the largest \<^verbatim>\<open>long\<close>; \<open>pnum_t_of\<close>: the conversion \<^verbatim>\<open>(pnum_t)\<close> of a
    \<^verbatim>\<open>long\<close>;
  \<^item> \<open>abs_path\<close>, \<open>fopen_r\<close>, \<open>stdin\<close>: path resolution and input streams, \<open>None\<close> where the
    C function returns \<^verbatim>\<open>NULL\<close>;
  \<^item> \<open>init_file_entries\<close> (the crawler) and \<open>handle_file_entry\<close>: the new list (and count),
    \<open>None\<close> where the C function returns non-zero;
  \<^item> \<open>sort_file_entry_p\<close>: the comparison function given to \<^verbatim>\<open>qsort\<close>, on the two entries
    that its arguments point to;
  \<^item> the dispatch functions: the new state, \<open>None\<close> where the C function reports failure.
\<close>

record externs =
  malloc_ok :: "nat \<Rightarrow> bool"
  sizeof_ptr :: nat
  LONG_MAX :: int
  pnum_t_of :: "int \<Rightarrow> int"
  abs_path :: "string \<Rightarrow> string option"
  fopen_r :: "string \<Rightarrow> in_stream option"
  stdin :: in_stream
  init_file_entries ::
    "string \<Rightarrow> file_entry list \<Rightarrow> int \<Rightarrow> program_options \<Rightarrow> (file_entry list \<times> int) option"
  handle_file_entry ::
    "file_entry list \<Rightarrow> string \<Rightarrow> int \<Rightarrow> program_options \<Rightarrow> file_entry list option"
  init_file_entry_p :: "int \<Rightarrow> file_entry list \<Rightarrow> nat list"
  sort_file_entry_p :: "file_entry \<Rightarrow> file_entry \<Rightarrow> int"
  add_partitions :: "int \<Rightarrow> program_options \<Rightarrow> partition list option"
  dispatch_file_entry_p_by_size ::
    "nat list \<Rightarrow> int \<Rightarrow> int \<Rightarrow> dispatch_state \<Rightarrow> dispatch_state option"
  dispatch_empty_file_entries ::
    "int \<Rightarrow> int \<Rightarrow> dispatch_state \<Rightarrow> dispatch_state option"
  dispatch_file_entries_by_limits ::
    "file_entry list \<Rightarrow> int \<Rightarrow> int \<Rightarrow> program_options \<Rightarrow> (int \<times> dispatch_state)"

section \<open>The C library's number and line scanners\<close>

definition isspace :: "char \<Rightarrow> bool" where
  "isspace c = (of_char c \<in> {32::nat, 9, 10, 11, 12, 13})"

definition isdigit :: "char \<Rightarrow> bool" where
  "isdigit c = (48 \<le> (of_char c :: nat) \<and> (of_char c :: nat) \<le> 57)"

definition digit_val :: "char \<Rightarrow> int" where
  "digit_val c = int (of_char c) - 48"

definition digits_val :: "string \<Rightarrow> int" where
  "digits_val ds = foldl (\<lambda>a c. a * 10 + digit_val c) 0 ds"

definition LLONG_MAX :: int where
  "LLONG_MAX = 9223372036854775807"

definition saturate :: "int \<Rightarrow> int \<Rightarrow> int" where
  "saturate hi v = (if hi < v then hi else if v < - hi - 1 then - hi - 1 else v)"

text \<open>
  The subject sequence of a decimal conversion (\<^verbatim>\<open>strtol\<close>, \<^verbatim>\<open>strtoll\<close> in base 10 and
  \<^verbatim>\<open>%lld\<close>): white space is skipped, then an optional sign, then at least one digit. The
  result is the value, kept within the range of the type as \<^verbatim>\<open>strtol\<close> does, and the
  text after the last digit; \<open>None\<close> when there is no digit to convert.
\<close>

definition scan_decimal :: "int \<Rightarrow> string \<Rightarrow> (int \<times> string) option" where
  "scan_decimal hi s =
     (let s1 = dropWhile isspace s;
          neg = (s1 \<noteq> [] \<and> hd s1 = CHR ''-'');
          s2 = (if s1 \<noteq> [] \<and> (hd s1 = CHR ''-'' \<or> hd s1 = CHR ''+'') then tl s1 else s1);
          ds = takeWhile isdigit s2
      in if ds = [] then None
         else Some (saturate hi (if neg then - digits_val ds else digits_val ds),
                    dropWhile isdigit s2))"

text \<open>
  \<^verbatim>\<open>strtoll(optarg, &endptr, 10)\<close>: the value and the text at \<^verbatim>\<open>endptr\<close>. With no
  conversion the value is 0 and \<^verbatim>\<open>endptr\<close> is \<^verbatim>\<open>optarg\<close> itself.
\<close>

definition strtoll :: "string \<Rightarrow> int \<times> string" where
  "strtoll s = (case scan_decimal LLONG_MAX s of None \<Rightarrow> (0, s) | Some r \<Rightarrow> r)"

definition strtol :: "externs \<Rightarrow> string \<Rightarrow> int \<times> string" where
  "strtol x s = (case scan_decimal (LONG_MAX x) s of None \<Rightarrow> (0, s) | Some r \<Rightarrow> r)"

text \<open>
  \<^verbatim>\<open>sscanf(argument, "%lld %[^\n]", &input_size, input_path)\<close>: \<open>Some (size, path)\<close> exactly
  when the call returns 2. The directive \<^verbatim>\<open>" "\<close> skips any white space, and
  \<^verbatim>\<open>%[^\n]\<close> needs at least one character other than a newline. A number out of the
  range of \<^verbatim>\<open>long long\<close> is kept within it, as \<^verbatim>\<open>strtoll\<close> does.
\<close>

definition sscanf_lld_path :: "string \<Rightarrow> (int \<times> string) option" where
  "sscanf_lld_path s =
     (case scan_decimal LLONG_MAX s of
        None \<Rightarrow> None
      | Some (v, rest) \<Rightarrow>
          (let p = takeWhile (\<lambda>c. c \<noteq> CHR 0x0A) (dropWhile isspace rest)
           in if p = [] then None else Some (v, p)))"

text \<open>
  The decimal numeral of a natural number, as it is written on a command line. It is not
  part of the program: it serves to state what the program does with the argument \<open>P\<close>.
\<close>

definition digit_char :: "nat \<Rightarrow> char" where
  "digit_char d = ''0123456789'' ! d"

function decimal :: "nat \<Rightarrow> string" where
  "decimal n =
     (if n < 10 then [digit_char n] else decimal (n div 10) @ [digit_char (n mod 10)])"
  by pat_completeness auto
termination
  by (relation "measure id") auto

declare decimal.simps [simp del]

section \<open>\<^verbatim>\<open>handle_argument\<close>\<close>

text \<open>
  The loop that removes multiple ending slashes: while the path is longer than one character
  and its last two characters are both slashes, the last one is cut off.
\<close>

function remove_ending_slashes :: "string \<Rightarrow> string" where
  "remove_ending_slashes p =
     (if length p > 1 \<and> p ! (length p - 1) = CHR ''/'' \<and> p ! (length p - 2) = CHR ''/''
      then remove_ending_slashes (butlast p) else p)"
  by pat_completeness auto
termination
  by (relation "measure length") auto

declare remove_ending_slashes.simps [simp del]

definition say :: "event list \<Rightarrow> run_state \<Rightarrow> run_state" where
  "say es st = st\<lparr>log := log st @ es\<rparr>"

text \<open>
  The block that crawls the normalised path: nothing is done for an empty path.
\<close>

definition crawl_path ::
  "externs \<Rightarrow> program_options \<Rightarrow> string \<Rightarrow> run_state \<Rightarrow> int \<times> run_state" where
  "crawl_path x options input_path st =
     (if input_path \<noteq> [] then
        (case init_file_entries x input_path (head st) (totalfiles st) options of
           Some (head', totalfiles') \<Rightarrow>
             (0, say [Crawl input_path] (st\<lparr>head := head', totalfiles := totalfiles'\<rparr>))
         | None \<Rightarrow>
             (1, say [Crawl input_path,
                      Stderr ''handle_argument(): cannot initialize file entries''] st))
      else (0, st))"

definition handle_argument ::
  "externs \<Rightarrow> program_options \<Rightarrow> string \<Rightarrow> run_state \<Rightarrow> int \<times> run_state" where
  "handle_argument x options argument st =
     (if arbitrary_values options then
        (if \<not> malloc_ok x (length argument + 1)
         then (1, say [Stderr ''handle_argument(): cannot allocate memory''] st)
         else
           (case sscanf_lld_path argument of
              Some (input_size, input_path) \<Rightarrow>
                (case handle_file_entry x (head st) input_path input_size options of
                   Some head' \<Rightarrow>
                     (0, say [HandleEntry input_path input_size]
                           (st\<lparr>head := head', totalfiles := totalfiles st + 1\<rparr>))
                 | None \<Rightarrow>
                     (1, say [HandleEntry input_path input_size,
                              Stderr ''handle_argument(): cannot add file entry''] st))
            | None \<Rightarrow> (0, say [Stderr (''error parsing input values: '' @ argument)] st)))
      else
        (if \<not> malloc_ok x (length argument + 1)
         then (1, say [Stderr ''handle_argument(): cannot allocate memory''] st)
         else crawl_path x options (remove_ending_slashes argument) st))"

section \<open>Options\<close>

text \<open>
  Modelled from the spec: \<^verbatim>\<open>init_options\<close> and the \<^verbatim>\<open>DFLT_OPT_\<close>, \<^verbatim>\<open>OPT_\<close> macros
  (\<^verbatim>\<open>options.c\<close>, \<^verbatim>\<open>options.h\<close>) are not among the sources. The spec gives a selected
  mode \<open>N \<ge> 1\<close>, \<open>F \<ge> 1\<close>, \<open>S \<ge> 1\<close> and the source refuses values \<open>\<le> 0\<close>, so an unset
  selector is 0; preload and overload are 0 and the rounding unit is 1 unless set (the spec's
  first scenario); the directory depth is disabled by -1 (the source's comment on \<^verbatim>\<open>-d\<close>);
  every switch is off, file system boundaries are crossed, and one \<^verbatim>\<open>-v\<close> reaches
  \<^verbatim>\<open>OPT_VERBOSE\<close>.
\<close>

definition DFLT_OPT_NUM_PARTS :: int where
  "DFLT_OPT_NUM_PARTS = 0"

definition DFLT_OPT_MAX_ENTRIES :: int where
  "DFLT_OPT_MAX_ENTRIES = 0"

definition DFLT_OPT_MAX_SIZE :: int where
  "DFLT_OPT_MAX_SIZE = 0"

definition OPT_VERBOSE :: int where
  "OPT_VERBOSE = 1"

definition init_options :: program_options where
  "init_options =
     \<lparr>num_parts = DFLT_OPT_NUM_PARTS, max_entries = DFLT_OPT_MAX_ENTRIES,
      max_size = DFLT_OPT_MAX_SIZE, in_filename = None, arbitrary_values = False,
      out_filename = None, dir_depth = - 1, add_slash = False, empty_dirs = False,
      dnr_empty = False, verbose = 0, leaf_dirs = False, live_mode = False,
      pre_part_hook = None, post_part_hook = None, follow_symbolic_links = False,
      cross_fs_boundaries = True, preload_size = 0, overload_size = 0, round_size = 1\<rparr>"

text \<open>The conversion \<^verbatim>\<open>(int)\<close> of a \<^verbatim>\<open>long\<close>, for a 32-bit \<^verbatim>\<open>int\<close>.\<close>

definition int_of_long :: "int \<Rightarrow> int" where
  "int_of_long v = (v + 2147483648) mod 4294967296 - 2147483648"

text \<open>
  One round of the \<^verbatim>\<open>getopt\<close> loop: the body of the \<^verbatim>\<open>switch\<close> for the option character
  \<open>ch\<close> with its argument \<open>optarg\<close>. \<open>Inl (code, lines)\<close> is a \<^verbatim>\<open>return\<close> from \<^verbatim>\<open>main\<close>
  with what was printed before it; \<open>Inr\<close> is \<^verbatim>\<open>break\<close>, with the options as they are then.
\<close>

definition handle_option ::
  "externs \<Rightarrow> program_options \<Rightarrow> char \<Rightarrow> string \<Rightarrow> (int \<times> event list) + program_options" where
  "handle_option x options ch optarg =
     (if ch = CHR ''?'' \<or> ch = CHR ''h'' then Inl (0, [Usage])
      else if ch = CHR ''V'' then Inl (0, [Version])
      else if ch = CHR ''n'' then
        (case strtol x optarg of (v, endptr) \<Rightarrow>
           if endptr = optarg \<or> endptr \<noteq> [] \<or> v \<le> 0 then Inl (1, [Usage])
           else Inr (options\<lparr>num_parts := pnum_t_of x v\<rparr>))
      else if ch = CHR ''f'' then
        (case strtoll optarg of (v, endptr) \<Rightarrow>
           if endptr = optarg \<or> endptr \<noteq> [] \<or> v \<le> 0 then Inl (1, [Usage])
           else Inr (options\<lparr>max_entries := v\<rparr>))
      else if ch = CHR ''s'' then
        (case strtoll optarg of (v, endptr) \<Rightarrow>
           if endptr = optarg \<or> endptr \<noteq> [] \<or> v \<le> 0 then Inl (1, [Usage])
           else Inr (options\<lparr>max_size := v\<rparr>))
      else if ch = CHR ''i'' then
        (if length optarg = 0 then Inr options
         else (case abs_path x optarg of
                 None \<Rightarrow>
                   Inl (1, [Stderr (''main(): cannot determine absolute path for file '' @
                                    [CHR 0x27] @ optarg @ [CHR 0x27])])
               | Some f \<Rightarrow> Inr (options\<lparr>in_filename := Some f\<rparr>)))
      else if ch = CHR ''a'' then Inr (options\<lparr>arbitrary_values := True\<rparr>)
      else if ch = CHR ''o'' then
        (if length optarg = 0 then Inr options
         else if optarg = ''-'' then Inr (options\<lparr>out_filename := None\<rparr>)
         else (case abs_path x optarg of
                 None \<Rightarrow>
                   Inl (1, [Stderr (''main(): cannot determine absolute path for file '' @
                                    [CHR 0x27] @ optarg @ [CHR 0x27])])
               | Some f \<Rightarrow> Inr (options\<lparr>out_filename := Some f\<rparr>)))
      else if ch = CHR ''d'' then
        (case strtol x optarg of (v, endptr) \<Rightarrow>
           if endptr = optarg \<or> endptr \<noteq> [] \<or> v < 0 then Inl (1, [Usage])
           else Inr (options\<lparr>dir_depth := int_of_long v\<rparr>))
      else if ch = CHR ''e'' then Inr (options\<lparr>add_slash := True\<rparr>)
      else if ch = CHR ''z'' then Inr (options\<lparr>empty_dirs := True\<rparr>)
      else if ch = CHR ''Z'' then Inr (options\<lparr>dnr_empty := True, empty_dirs := True\<rparr>)
      else if ch = CHR ''v'' then Inr (options\<lparr>verbose := verbose options + 1\<rparr>)
      else if ch = CHR ''D'' then Inr (options\<lparr>leaf_dirs := True, empty_dirs := True\<rparr>)
      else if ch = CHR ''L'' then Inr (options\<lparr>live_mode := True\<rparr>)
      else if ch = CHR ''w'' then
        (if length optarg + 1 \<le> 1 then Inr options
         else if \<not> malloc_ok x (length optarg + 1)
         then Inl (1, [Stderr ''main(): cannot allocate memory''])
         else Inr (options\<lparr>pre_part_hook := Some optarg\<rparr>))
      else if ch = CHR ''W'' then
        (if length optarg + 1 \<le> 1 then Inr options
         else if \<not> malloc_ok x (length optarg + 1)
         then Inl (1, [Stderr ''main(): cannot allocate memory''])
         else Inr (options\<lparr>post_part_hook := Some optarg\<rparr>))
      else if ch = CHR ''l'' then Inr (options\<lparr>follow_symbolic_links := True\<rparr>)
      else if ch = CHR ''x'' then Inr (options\<lparr>cross_fs_boundaries := False\<rparr>)
      else if ch = CHR ''p'' then
        (case strtoll optarg of (v, endptr) \<Rightarrow>
           if endptr = optarg \<or> endptr \<noteq> [] \<or> v \<le> 0
           then Inl (1, [Stderr ''Option -p requires a value greater than 0.'', Usage])
           else Inr (options\<lparr>preload_size := v\<rparr>))
      else if ch = CHR ''q'' then
        (case strtoll optarg of (v, endptr) \<Rightarrow>
           if endptr = optarg \<or> endptr \<noteq> [] \<or> v \<le> 0
           then Inl (1, [Stderr ''Option -q requires a value greater than 0.'', Usage])
           else Inr (options\<lparr>overload_size := v\<rparr>))
      else if ch = CHR ''r'' then
        (case strtoll optarg of (v, endptr) \<Rightarrow>
           if endptr = optarg \<or> endptr \<noteq> [] \<or> v \<le> 1
           then Inl (1, [Stderr ''Option -r requires a value greater than 1.'', Usage])
           else Inr (options\<lparr>round_size := v\<rparr>))
      else Inr options)"

text \<open>
  The \<^verbatim>\<open>while((ch = getopt(...)) != -1)\<close> loop over what \<^verbatim>\<open>getopt\<close> returns in turn: the
  option character and, for an option that takes one, its argument.
\<close>

fun getopt_loop ::
  "externs \<Rightarrow> program_options \<Rightarrow> (char \<times> string) list \<Rightarrow> (int \<times> event list) + program_options" where
  "getopt_loop x options [] = Inr options"
| "getopt_loop x options ((ch, optarg) # rest) =
     (case handle_option x options ch optarg of
        Inl r \<Rightarrow> Inl r
      | Inr options' \<Rightarrow> getopt_loop x options' rest)"

text \<open>The checks for options consistency: \<open>Some\<close> of what is printed before \<^verbatim>\<open>return (1)\<close>.\<close>

definition check_options :: "program_options \<Rightarrow> event list option" where
  "check_options options =
     (if num_parts options = DFLT_OPT_NUM_PARTS \<and> max_entries options = DFLT_OPT_MAX_ENTRIES \<and>
         max_size options = DFLT_OPT_MAX_SIZE
      then Some [Stderr ''Please specify either -n, -f or -s.'', Usage]
      else if num_parts options \<noteq> DFLT_OPT_NUM_PARTS \<and>
              (max_entries options \<noteq> DFLT_OPT_MAX_ENTRIES \<or> max_size options \<noteq> DFLT_OPT_MAX_SIZE \<or>
               live_mode options)
      then Some [Stderr ''Option -n is incompatible with options -f, -s and -L.'', Usage]
      else if \<not> live_mode options \<and> (pre_part_hook options \<noteq> None \<or> post_part_hook options \<noteq> None)
      then Some [Stderr ''Hooks can only be used with option -L.'', Usage]
      else None)"

text \<open>No file specified: force stdin. \<open>None\<close> when the allocation of the name fails.\<close>

definition force_stdin :: "externs \<Rightarrow> program_options \<Rightarrow> string list \<Rightarrow> program_options option" where
  "force_stdin x options argv =
     (if in_filename options = None \<and> length argv \<le> 0 then
        (if \<not> malloc_ok x (length ''-'' + 1) then None
         else Some (options\<lparr>in_filename := Some ''-''\<rparr>))
      else Some options)"

section \<open>Reading the input\<close>

text \<open>
  The \<^verbatim>\<open>fgets\<close> loop: the first newline of the buffer is replaced by the end of the string,
  and the line goes to \<^verbatim>\<open>handle_argument\<close>; a non-zero result ends \<^verbatim>\<open>main\<close>.
\<close>

fun read_lines :: "externs \<Rightarrow> program_options \<Rightarrow> string list \<Rightarrow> run_state \<Rightarrow> int \<times> run_state" where
  "read_lines x options [] st = (0, st)"
| "read_lines x options (line # rest) st =
     (case handle_argument x options (takeWhile (\<lambda>c. c \<noteq> CHR 0x0A) line) st of
        (r, st') \<Rightarrow> if r \<noteq> 0 then (1, st') else read_lines x options rest st')"

definition read_stream :: "externs \<Rightarrow> program_options \<Rightarrow> in_stream \<Rightarrow> run_state \<Rightarrow> int \<times> run_state" where
  "read_stream x options in_fp st =
     (case read_lines x options (chunks in_fp) st of
        (r, st') \<Rightarrow>
          if r \<noteq> 0 then (1, st')
          else (0, if read_error in_fp then say [Stderr ''error reading from input stream''] st'
                   else st'))"

text \<open>
  Work on each file provided through the input file (or stdin). A failing \<^verbatim>\<open>fopen\<close>
  prints the file name with \<^verbatim>\<open>strerror(errno)\<close>, of which the model keeps the file name.
\<close>

definition read_input :: "externs \<Rightarrow> program_options \<Rightarrow> run_state \<Rightarrow> int \<times> run_state" where
  "read_input x options st =
     (case in_filename options of
        None \<Rightarrow> (0, st)
      | Some f \<Rightarrow>
          if f = ''-'' then read_stream x options (stdin x) st
          else (case fopen_r x f of
                  None \<Rightarrow> (1, say [Fopen f, Stderr (f @ '': '')] st)
                | Some in_fp \<Rightarrow> read_stream x options in_fp (say [Fopen f] st)))"

text \<open>Now, work on each path provided as arguments.\<close>

fun handle_arguments :: "externs \<Rightarrow> program_options \<Rightarrow> string list \<Rightarrow> run_state \<Rightarrow> int \<times> run_state" where
  "handle_arguments x options [] st = (0, st)"
| "handle_arguments x options (a # rest) st =
     (case handle_argument x options a st of
        (r, st') \<Rightarrow> if r \<noteq> 0 then (1, st') else handle_arguments x options rest st')"

definition ingest :: "externs \<Rightarrow> program_options \<Rightarrow> string list \<Rightarrow> int \<times> run_state" where
  "ingest x options argv =
     (let st0 = \<lparr>totalfiles = 0, head = [],
                log = (if verbose options \<ge> OPT_VERBOSE then [Stderr ''Examining filesystem...'']
                       else [])\<rparr>
      in case read_input x options st0 of
           (r, st1) \<Rightarrow> if r \<noteq> 0 then (1, st1) else handle_arguments x options argv st1)"

section \<open>Dispatch and output\<close>

definition assigns :: "dispatch_state \<Rightarrow> event list" where
  "assigns d = map (\<lambda>(i, k). Assign i k) (d_placed d)"

text \<open>
  \<^verbatim>\<open>qsort\<close> of the C library with the comparison function \<open>compar\<close>, on the array as a
  list: every element is inserted before the first one it does not come after. \<^verbatim>\<open>qsort\<close>
  leaves the order of elements that compare equal open; here they stay in the order of the
  array.
\<close>

fun qsort_insert :: "('a \<Rightarrow> 'a \<Rightarrow> int) \<Rightarrow> 'a \<Rightarrow> 'a list \<Rightarrow> 'a list" where
  "qsort_insert compar a [] = [a]"
| "qsort_insert compar a (b # bs) =
     (if compar a b \<le> 0 then a # b # bs else b # qsort_insert compar a bs)"

definition qsort :: "('a \<Rightarrow> 'a \<Rightarrow> int) \<Rightarrow> 'a list \<Rightarrow> 'a list" where
  "qsort compar base = foldr (qsort_insert compar) base []"

text \<open>
  Sort entries with a fixed number of partitions: the array of \<^verbatim>\<open>totalfiles\<close> pointers is
  allocated, initialised from the list and sorted with the comparison function
  \<^verbatim>\<open>sort_file_entry_p\<close>, the partitions are created, the files are dispatched, and the empty
  files are dispatched again. A pointer to an entry is the position of the entry in the
  list. Only \<^verbatim>\<open>add_partitions\<close> is given the options; the comparison function sees two
  entries, the first pass the array, the count, the partitions and their number, the
  second pass the list, the count, the partitions and their number.
\<close>

definition dispatch_fixed ::
  "externs \<Rightarrow> program_options \<Rightarrow> run_state \<Rightarrow> (int \<times> event list) + dispatch_state" where
  "dispatch_fixed x options st =
     (if \<not> malloc_ok x (sizeof_ptr x * nat (totalfiles st))
      then Inl (1, [Stderr ''main(): cannot allocate memory''])
      else
        (let file_entry_p =
               qsort (\<lambda>a b. sort_file_entry_p x (head st ! a) (head st ! b))
                 (take (nat (totalfiles st)) (init_file_entry_p x (totalfiles st) (head st)))
         in case add_partitions x (num_parts options) options of
              None \<Rightarrow> Inl (1, [Stderr ''main(): cannot init list of partitions''])
            | Some part_head \<Rightarrow>
                (case dispatch_file_entry_p_by_size x file_entry_p (totalfiles st)
                        (num_parts options)
                        \<lparr>d_entries = head st, d_parts = part_head, d_placed = []\<rparr> of
                   None \<Rightarrow> Inl (1, [Stderr ''main(): unable to dispatch file entries''])
                 | Some d1 \<Rightarrow>
                     (case dispatch_empty_file_entries x (totalfiles st) (num_parts options) d1 of
                        None \<Rightarrow>
                          Inl (1, assigns d1 @
                                  [Stderr ''main(): unable to dispatch empty file entries''])
                      | Some d2 \<Rightarrow> Inr d2))))"

text \<open>
  Everything after the input has been read: the status line, the dispatch (fixed or
  variable number of partitions) and the output lists.
\<close>

definition finish :: "externs \<Rightarrow> program_options \<Rightarrow> run_state \<Rightarrow> int \<times> event list" where
  "finish x options st =
     (if totalfiles st \<le> 0 \<or> live_mode options
      then (0, log st @ [StatusFound (totalfiles st)])
      else
        (let l1 = log st @ [StatusFound (totalfiles st)] @
                  (if verbose options \<ge> OPT_VERBOSE then [Stderr ''Sorting entries...''] else []);
             tail = (\<lambda>d n.
                  [PrintPartitions (d_parts d)] @
                  (if verbose options \<ge> OPT_VERBOSE then [Stderr ''Writing output lists...''] else []) @
                  [PrintFileEntries (d_entries d) (out_filename options) n] @
                  (if verbose options \<ge> OPT_VERBOSE then [Stderr ''Cleaning up...''] else []))
         in if num_parts options \<noteq> DFLT_OPT_NUM_PARTS then
              (case dispatch_fixed x options st of
                 Inl (r, es) \<Rightarrow> (r, l1 @ es)
               | Inr d \<Rightarrow> (0, l1 @ assigns d @ tail d (num_parts options)))
            else
              (case dispatch_file_entries_by_limits x (head st) (max_entries options)
                      (max_size options) options of
                 (n, d) \<Rightarrow>
                   if n = 0
                   then (1, l1 @ [DispatchByLimits, Stderr ''main(): unable to dispatch file entries''])
                   else (0, l1 @ [DispatchByLimits] @ assigns d @ tail d n))))"

section \<open>\<^verbatim>\<open>main\<close>\<close>

text \<open>
  A run of the program: \<open>getopts\<close> is what \<^verbatim>\<open>getopt\<close> returns in turn, \<open>argv\<close> the arguments
  left after the options. The result is the exit code and what the run did, in order.
  Releasing memory (\<^verbatim>\<open>free\<close>, \<^verbatim>\<open>uninit_options\<close>, \<^verbatim>\<open>uninit_partitions\<close>,
  \<^verbatim>\<open>uninit_file_entries\<close>) is not modelled.
\<close>

definition main :: "externs \<Rightarrow> (char \<times> string) list \<Rightarrow> string list \<Rightarrow> int \<times> event list" where
  "main x getopts argv =
     (case getopt_loop x init_options getopts of
        Inl r \<Rightarrow> r
      | Inr options0 \<Rightarrow>
          (case check_options options0 of
             Some es \<Rightarrow> (1, es)
           | None \<Rightarrow>
               (case force_stdin x options0 argv of
                  None \<Rightarrow> (1, [Stderr ''main(): cannot allocate memory''])
                | Some options \<Rightarrow>
                    (case ingest x options argv of
                       (r, st) \<Rightarrow> if r \<noteq> 0 then (1, log st) else finish x options st))))"

section \<open>The absent functions as the spec describes them\<close>

text \<open>
  Modelled from the spec: \<^verbatim>\<open>handle_file_entry\<close> (\<^verbatim>\<open>file_entry.c\<close>) is not among the
  sources. The spec's control flow has the arbitrary-value parser append to the entry list;
  an entry holds its path and its raw size and is not yet assigned to a partition.
\<close>

definition spec_handle_file_entry ::
  "file_entry list \<Rightarrow> string \<Rightarrow> int \<Rightarrow> program_options \<Rightarrow> file_entry list option" where
  "spec_handle_file_entry hd_list path sz options =
     Some (hd_list @ [\<lparr>fe_path = path, fe_size = sz, fe_partition_index = None\<rparr>])"

text \<open>
  Modelled from the spec: \<^verbatim>\<open>init_file_entry_p\<close>, \<^verbatim>\<open>sort_file_entry_p\<close> (\<^verbatim>\<open>file_entry.c\<close>),
  \<^verbatim>\<open>add_partitions\<close> (\<^verbatim>\<open>partition.c\<close>), \<^verbatim>\<open>dispatch_file_entry_p_by_size\<close> and
  \<^verbatim>\<open>dispatch_empty_file_entries\<close> (\<^verbatim>\<open>dispatch.c\<close>) are not among the sources. They apply
  the rules of the fixed-N dispatcher of the spec's section 4.3 to what \<^verbatim>\<open>main\<close> hands
  them:
  \<^item> \<^verbatim>\<open>main\<close> allocates the array for \<^verbatim>\<open>totalfiles\<close> pointers and sorts that many, so the
    array is filled with the entries of the list, in list order, the empty ones included;
  \<^item> the comparison function puts the entry of greater size first (the sort is by size,
    descending). It sees two entries and no options, so the size is the one that the
    entry carries;
  \<^item> K partitions are created, each with the preload as its size and no entry;
  \<^item> a placement puts an entry in the partition with the smallest size, the smallest index
    among equals, adds the entry's size to the partition's size and one to its count, and
    records the partition in the entry. An entry that is in a partition already is first
    taken out of it, so that every entry is counted in one partition only (the first
    invariant of the spec's section 8);
  \<^item> the first pass is handed the sorted array and its length \<^verbatim>\<open>totalfiles\<close>, and places
    every entry of it in turn;
  \<^item> the second pass, which \<^verbatim>\<open>main\<close> calls a re-dispatch of the empty files, goes over the
    list and places each entry of size 0 again, by the same placement.
\<close>

definition spec_init_file_entry_p :: "int \<Rightarrow> file_entry list \<Rightarrow> nat list" where
  "spec_init_file_entry_p num_entries es = take (nat num_entries) [0..<length es]"

definition spec_sort_file_entry_p :: "file_entry \<Rightarrow> file_entry \<Rightarrow> int" where
  "spec_sort_file_entry_p a b =
     (if fe_size b < fe_size a then - 1 else if fe_size a < fe_size b then 1 else 0)"

definition spec_add_partitions :: "int \<Rightarrow> program_options \<Rightarrow> partition list option" where
  "spec_add_partitions k options =
     Some (replicate (nat k) \<lparr>p_size = preload_size options, p_num_files = 0\<rparr>)"

fun first_least :: "nat \<Rightarrow> int \<Rightarrow> nat \<Rightarrow> partition list \<Rightarrow> nat" where
  "first_least best best_size i [] = best"
| "first_least best best_size i (p # ps) =
     (if p_size p < best_size then first_least i (p_size p) (Suc i) ps
      else first_least best best_size (Suc i) ps)"

definition least_loaded :: "partition list \<Rightarrow> nat" where
  "least_loaded ps = (case ps of [] \<Rightarrow> 0 | p # rest \<Rightarrow> first_least 0 (p_size p) 1 rest)"

definition take_out :: "file_entry \<Rightarrow> partition list \<Rightarrow> partition list" where
  "take_out e ps =
     (case fe_partition_index e of
        None \<Rightarrow> ps
      | Some j \<Rightarrow>
          if j < length ps
          then ps[j := (ps ! j)\<lparr>p_size := p_size (ps ! j) - fe_size e,
                                p_num_files := p_num_files (ps ! j) - 1\<rparr>]
          else ps)"

definition place :: "nat \<Rightarrow> dispatch_state \<Rightarrow> dispatch_state option" where
  "place i d =
     (if d_parts d = [] \<or> length (d_entries d) \<le> i then None
      else
        (let e = d_entries d ! i;
             ps = take_out e (d_parts d);
             k = least_loaded ps;
             p = ps ! k
         in Some \<lparr>d_entries = (d_entries d)[i := e\<lparr>fe_partition_index := Some k\<rparr>],
                  d_parts = ps[k := p\<lparr>p_size := p_size p + fe_size e,
                                       p_num_files := p_num_files p + 1\<rparr>],
                  d_placed = d_placed d @ [(i, k)]\<rparr>))"

fun place_all :: "(int \<Rightarrow> bool) \<Rightarrow> nat list \<Rightarrow> dispatch_state \<Rightarrow> dispatch_state option" where
  "place_all sel [] d = Some d"
| "place_all sel (i # rest) d =
     (if length (d_entries d) \<le> i then None
      else if sel (fe_size (d_entries d ! i)) then
        (case place i d of
           None \<Rightarrow> None
         | Some d' \<Rightarrow> place_all sel rest d')
      else place_all sel rest d)"

definition spec_dispatch_file_entry_p_by_size ::
  "nat list \<Rightarrow> int \<Rightarrow> int \<Rightarrow> dispatch_state \<Rightarrow> dispatch_state option" where
  "spec_dispatch_file_entry_p_by_size file_entry_p num_entries n d =
     place_all (\<lambda>sz. True) (take (nat num_entries) file_entry_p) d"

definition spec_dispatch_empty_file_entries ::
  "int \<Rightarrow> int \<Rightarrow> dispatch_state \<Rightarrow> dispatch_state option" where
  "spec_dispatch_empty_file_entries num_entries n d =
     place_all (\<lambda>sz. sz = 0) [0..<length (d_entries d)] d"

definition with_spec :: "externs \<Rightarrow> externs" where
  "with_spec x =
     x\<lparr>handle_file_entry := spec_handle_file_entry,
       init_file_entry_p := spec_init_file_entry_p,
       sort_file_entry_p := spec_sort_file_entry_p,
       add_partitions := spec_add_partitions,
       dispatch_file_entry_p_by_size := spec_dispatch_file_entry_p_by_size,
       dispatch_empty_file_entries := spec_dispatch_empty_file_entries\<rparr>"

section \<open>A sample host\<close>

text \<open>
  A host for running the model on concrete inputs: memory is never short, \<^verbatim>\<open>long\<close> has 64
  bits and \<^verbatim>\<open>pnum_t\<close> 32, \<^verbatim>\<open>-\<close> and absolute paths are kept by \<^verbatim>\<open>abs_path\<close>, no input
  file can be opened, stdin is empty, the crawler finds one file of size 1 under every path,
  the variable-N dispatcher puts everything in one partition, and the other absent functions
  are those of the spec.
\<close>

definition sample_host :: externs where
  "sample_host =
     \<lparr>malloc_ok = (\<lambda>n. True), sizeof_ptr = 8, LONG_MAX = 9223372036854775807,
      pnum_t_of = (\<lambda>v. v mod 4294967296),
      abs_path = (\<lambda>p. Some (if p = ''-'' \<or> take 1 p = ''/'' then p else ''/cwd/'' @ p)),
      fopen_r = (\<lambda>f. None),
      stdin = \<lparr>chunks = [], read_error = False\<rparr>,
      init_file_entries =
        (\<lambda>p es n options.
           Some (es @ [\<lparr>fe_path = p, fe_size = 1, fe_partition_index = None\<rparr>], n + 1)),
      handle_file_entry = spec_handle_file_entry,
      init_file_entry_p = spec_init_file_entry_p,
      sort_file_entry_p = spec_sort_file_entry_p,
      add_partitions = spec_add_partitions,
      dispatch_file_entry_p_by_size = spec_dispatch_file_entry_p_by_size,
      dispatch_empty_file_entries = spec_dispatch_empty_file_entries,
      dispatch_file_entries_by_limits =
        (\<lambda>es f s options.
           (1, \<lparr>d_entries = map (\<lambda>e. e\<lparr>fe_partition_index := Some 0\<rparr>) es,
                d_parts = [\<lparr>p_size = preload_size options + sum_list (map fe_size es),
                            p_num_files = int (length es)\<rparr>],
                d_placed = map (\<lambda>i. (i, 0)) [0..<length es]\<rparr>))\<rparr>"

section \<open>What a log shows\<close>

text \<open>
  The events of dispatching and of output: an assignment to a partition, the variable-N
  dispatch, the partition summary and the manifests.
\<close>

fun is_dispatch_or_output :: "event \<Rightarrow> bool" where
  "is_dispatch_or_output (Assign i k) = True"
| "is_dispatch_or_output DispatchByLimits = True"
| "is_dispatch_or_output (PrintPartitions ps) = True"
| "is_dispatch_or_output (PrintFileEntries es f n) = True"
| "is_dispatch_or_output e = False"

definition quiet :: "run_state \<Rightarrow> bool" where
  "quiet st = (\<forall>e\<in>set (log st). \<not> is_dispatch_or_output e)"

section \<open>What a dispatch leaves\<close>





section \<open>Running the model\<close>

text \<open>The definitions that a run on a concrete input unfolds.\<close>

lemmas run_option_defs = handle_option_def strtol_def strtoll_def scan_decimal_def isspace_def
  isdigit_def digits_val_def digit_val_def saturate_def LLONG_MAX_def

lemmas run_main_defs = main_def run_option_defs sample_host_def with_spec_def init_options_def
  check_options_def force_stdin_def ingest_def read_input_def read_stream_def handle_argument_def
  crawl_path_def remove_ending_slashes.simps say_def finish_def assigns_def dispatch_fixed_def
  DFLT_OPT_NUM_PARTS_def DFLT_OPT_MAX_ENTRIES_def DFLT_OPT_MAX_SIZE_def OPT_VERBOSE_def
  sscanf_lld_path_def spec_handle_file_entry_def spec_init_file_entry_p_def
  spec_sort_file_entry_p_def spec_add_partitions_def spec_dispatch_file_entry_p_by_size_def
  spec_dispatch_empty_file_entries_def place_def least_loaded_def take_out_def qsort_def

section \<open>What the scanners accept\<close>

lemma isdigit_not_space_sign:
  "isdigit c \<Longrightarrow> \<not> isspace c \<and> c \<noteq> CHR ''-'' \<and> c \<noteq> CHR ''+''"
  by (auto simp: isdigit_def isspace_def)

lemma takeWhile_digits:
  "\<forall>c\<in>set ds. isdigit c \<Longrightarrow> rest = [] \<or> \<not> isdigit (hd rest) \<Longrightarrow>
   takeWhile isdigit (ds @ rest) = ds \<and> dropWhile isdigit (ds @ rest) = rest"
  by (cases rest) auto

lemma scan_decimal_digits:
  assumes "ds \<noteq> []" and "\<forall>c\<in>set ds. isdigit c" and "rest = [] \<or> \<not> isdigit (hd rest)"
  shows "scan_decimal hi (ds @ rest) = Some (saturate hi (digits_val ds), rest)"
proof -
  obtain d ds' where ds: "ds = d # ds'" using assms(1) by (cases ds) auto
  have d: "\<not> isspace d" "d \<noteq> CHR ''-''" "d \<noteq> CHR ''+''"
    using assms(2) isdigit_not_space_sign [of d] by (auto simp: ds)
  have dw: "dropWhile isspace (ds @ rest) = ds @ rest"
    using d by (simp add: ds)
  have hd: "hd (ds @ rest) = d" by (simp add: ds)
  have ne: "ds @ rest \<noteq> []" by (simp add: ds)
  show ?thesis
    unfolding scan_decimal_def dw Let_def
    using takeWhile_digits [OF assms(2,3)] d assms(1) ne hd by simp
qed

lemma scan_decimal_minus:
  assumes "ds \<noteq> []" and "\<forall>c\<in>set ds. isdigit c" and "rest = [] \<or> \<not> isdigit (hd rest)"
  shows "scan_decimal hi (''-'' @ ds @ rest) = Some (saturate hi (- digits_val ds), rest)"
proof -
  have dw: "dropWhile isspace (''-'' @ ds @ rest) = ''-'' @ ds @ rest"
    by (simp add: isspace_def)
  show ?thesis
    unfolding scan_decimal_def dw Let_def
    using takeWhile_digits [OF assms(2,3)] assms(1) by simp
qed

lemma sscanf_signed_line:
  assumes "sg = [] \<or> sg = ''-''"
    and "ds \<noteq> []" and "\<forall>c\<in>set ds. isdigit c"
    and "p \<noteq> []" and "\<not> isspace (hd p)" and "CHR 0x0A \<notin> set p"
  shows "sscanf_lld_path (sg @ ds @ '' '' @ p) =
           Some (saturate LLONG_MAX (if sg = ''-'' then - digits_val ds else digits_val ds), p)"
proof -
  let ?v = "saturate LLONG_MAX (if sg = ''-'' then - digits_val ds else digits_val ds)"
  have sp: "\<not> isdigit CHR '' ''" "isspace CHR '' ''"
    by (simp_all add: isdigit_def isspace_def)
  have r: "'' '' @ p = [] \<or> \<not> isdigit (hd ('' '' @ p))" using sp by simp
  have dwp: "dropWhile isspace ('' '' @ p) = p"
    using sp assms(4,5) by (cases p) auto
  have twp: "takeWhile (\<lambda>c. c \<noteq> CHR 0x0A) p = p"
    using assms(6) by auto
  have sc: "scan_decimal LLONG_MAX (sg @ ds @ '' '' @ p) = Some (?v, '' '' @ p)"
    using assms(1)
  proof
    assume "sg = []"
    then show ?thesis
      using scan_decimal_digits [OF assms(2,3) r, of LLONG_MAX] by simp
  next
    assume "sg = ''-''"
    then show ?thesis
      using scan_decimal_minus [OF assms(2,3) r, of LLONG_MAX] by simp
  qed
  show ?thesis
    unfolding sscanf_lld_path_def sc
    by (simp only: option.case prod.case Let_def dwp twp assms(4) if_False)
qed

lemma digits_val_snoc: "digits_val (ds @ [c]) = digits_val ds * 10 + digit_val c"
  by (simp add: digits_val_def)

lemma digit_char_digit:
  assumes "d < 10"
  shows "isdigit (digit_char d) \<and> digit_val (digit_char d) = int d"
proof -
  from assms have "d \<in> {0, 1, 2, 3, 4, 5, 6, 7, 8, 9}" by auto
  then show ?thesis
    by (auto simp: digit_char_def isdigit_def digit_val_def)
qed

lemma decimal_digits: "decimal n \<noteq> [] \<and> (\<forall>c\<in>set (decimal n). isdigit c)"
proof (induction n rule: decimal.induct)
  case (1 n)
  show ?case
  proof (cases "n < 10")
    case True
    then show ?thesis
      using digit_char_digit [of n]
      by (subst decimal.simps, subst (2) decimal.simps) simp
  next
    case False
    have "isdigit (digit_char (n mod 10))"
      using digit_char_digit [of "n mod 10"] by simp
    with 1 False show ?thesis by (subst decimal.simps, subst (2) decimal.simps) simp
  qed
qed

lemma digits_val_decimal: "digits_val (decimal n) = int n"
proof (induction n rule: decimal.induct)
  case (1 n)
  show ?case
  proof (cases "n < 10")
    case True
    then show ?thesis
      using digit_char_digit [of n]
      by (subst decimal.simps) (simp add: digits_val_def)
  next
    case False
    have "digit_val (digit_char (n mod 10)) = int (n mod 10)"
      using digit_char_digit [of "n mod 10"] by simp
    moreover have "int (n div 10) * 10 + int (n mod 10) = int n"
      by presburger
    ultimately show ?thesis
      using 1 False by (subst decimal.simps) (simp add: digits_val_snoc)
  qed
qed

lemma strtoll_decimal: "int n \<le> LLONG_MAX \<Longrightarrow> strtoll (decimal n) = (int n, [])"
  using scan_decimal_digits [of "decimal n" "[]" LLONG_MAX] decimal_digits [of n]
  by (simp add: strtoll_def digits_val_decimal saturate_def LLONG_MAX_def)

section \<open>Path arguments\<close>

lemma remove_ending_slashes_Nil: "remove_ending_slashes [] = []"
  by (simp add: remove_ending_slashes.simps)


lemma remove_ending_slashes_nonempty: "p \<noteq> [] \<Longrightarrow> remove_ending_slashes p \<noteq> []"
proof (induction p rule: remove_ending_slashes.induct)
  case (1 p)
  show ?case
  proof (cases "length p > 1 \<and> p ! (length p - 1) = CHR ''/'' \<and> p ! (length p - 2) = CHR ''/''")
    case True
    then have "butlast p \<noteq> []" by (cases p) auto
    with 1 True show ?thesis by (subst remove_ending_slashes.simps) simp
  next
    case False
    with 1 show ?thesis by (subst remove_ending_slashes.simps) auto
  qed
qed






text \<open>
  Claim C10. In path mode, an argument or input line that is empty after the ending slashes
  have been removed is skipped in silence: \<^verbatim>\<open>handle_argument\<close> returns 0 and leaves the
  entry list, the count of files and the log (no crawl, no message) as they were, and both
  loops go on with what follows. Only the empty argument is in this case, since the loop
  never cuts a path down to nothing. (The buffer for the copy must have been allocated.)
\<close>

theorem handle_argument_skips_empty_path:
  assumes "\<not> arbitrary_values options"
    and "argument = takeWhile (\<lambda>c. c \<noteq> CHR 0x0A) line"
    and "malloc_ok x (length argument + 1)"
    and "remove_ending_slashes argument = []"
  shows "handle_argument x options argument st = (0, st) \<and> argument = [] \<and>
         read_lines x options (line # lines) st = read_lines x options lines st \<and>
         handle_arguments x options (argument # argv) st = handle_arguments x options argv st"
proof -
  have e: "argument = []"
    using assms(4) remove_ending_slashes_nonempty [of argument] by blast
  have h: "handle_argument x options argument st = (0, st)"
    using assms(1,3,4) by (simp add: handle_argument_def crawl_path_def)
  show ?thesis
    using e h assms(2) by simp
qed

theorem handle_argument_skips_empty_path_witness:
  "handle_argument sample_host init_options [] \<lparr>totalfiles = 3, head = [], log = []\<rparr> =
     (0, \<lparr>totalfiles = 3, head = [], log = []\<rparr>) \<and>
   read_lines sample_host init_options [[CHR 0x0A], ''/x''] \<lparr>totalfiles = 3, head = [], log = []\<rparr> =
     read_lines sample_host init_options [''/x''] \<lparr>totalfiles = 3, head = [], log = []\<rparr>"
  using handle_argument_skips_empty_path
    [of init_options "[]" "[CHR 0x0A]" sample_host "\<lparr>totalfiles = 3, head = [], log = []\<rparr>"
        "[''/x'']" "[]"]
  by (simp add: init_options_def sample_host_def remove_ending_slashes_Nil)

section \<open>Arbitrary values\<close>

text \<open>
  Claim C5. With \<^verbatim>\<open>-a\<close>, a line that the \<^verbatim>\<open>"%lld %[^\n]"\<close> scan does not fully match
  (the \<^verbatim>\<open>sscanf\<close> call does not return 2) is reported on stderr and skipped:
  \<^verbatim>\<open>handle_argument\<close> returns 0, the entry list and the count of files are unchanged, and
  the reading loop goes on with the next line. (The buffer for the path must have been
  allocated.)
\<close>

theorem handle_argument_skips_malformed_line:
  assumes "arbitrary_values options"
    and "argument = takeWhile (\<lambda>c. c \<noteq> CHR 0x0A) line"
    and "malloc_ok x (length argument + 1)"
    and "sscanf_lld_path argument = None"
  shows "handle_argument x options argument st =
           (0, say [Stderr (''error parsing input values: '' @ argument)] st) \<and>
         head (say [Stderr (''error parsing input values: '' @ argument)] st) = head st \<and>
         totalfiles (say [Stderr (''error parsing input values: '' @ argument)] st) = totalfiles st \<and>
         read_lines x options (line # rest) st =
           read_lines x options rest (say [Stderr (''error parsing input values: '' @ argument)] st)"
  using assms by (simp add: handle_argument_def say_def)

theorem handle_argument_skips_malformed_line_witness:
  "read_lines sample_host (init_options\<lparr>arbitrary_values := True\<rparr>)
     [''oops'' @ [CHR 0x0A], ''3 f''] \<lparr>totalfiles = 0, head = [], log = []\<rparr> =
   (0, \<lparr>totalfiles = 1, head = [\<lparr>fe_path = ''f'', fe_size = 3, fe_partition_index = None\<rparr>],
        log = [Stderr ''error parsing input values: oops'', HandleEntry ''f'' 3]\<rparr>)"
  using handle_argument_skips_malformed_line
    [of "init_options\<lparr>arbitrary_values := True\<rparr>" "''oops''" "''oops'' @ [CHR 0x0A]"
      sample_host "\<lparr>totalfiles = 0, head = [], log = []\<rparr>" "[''3 f'']"]
  by (simp add: sample_host_def with_spec_def sscanf_lld_path_def scan_decimal_def isspace_def
      isdigit_def digits_val_def digit_val_def saturate_def LLONG_MAX_def handle_argument_def
      say_def spec_handle_file_entry_def)

text \<open>
  Claim C1, as the code has it. With \<^verbatim>\<open>-a\<close>, \<^verbatim>\<open>handle_argument\<close> makes no check of the
  sign: a line made of an optional minus sign, digits, a blank and a path is accepted with
  the size \<open>n\<close> its digits and sign give (kept within the range of \<^verbatim>\<open>long long\<close>), also when
  \<open>n\<close> is negative. The size goes to \<^verbatim>\<open>handle_file_entry\<close> as it is, and the entry counts
  when that call succeeds; with the entry appended as the spec describes, the list gets an
  entry of size \<open>n\<close> and the count goes up by one.
\<close>

theorem handle_argument_keeps_negative_size:
  assumes "arbitrary_values options"
    and "sg = [] \<or> sg = ''-''"
    and "ds \<noteq> []" and "\<forall>c\<in>set ds. isdigit c"
    and "p \<noteq> []" and "\<not> isspace (hd p)" and "CHR 0x0A \<notin> set p"
    and "malloc_ok x (length (sg @ ds @ '' '' @ p) + 1)"
    and "n = saturate LLONG_MAX (if sg = ''-'' then - digits_val ds else digits_val ds)"
  shows "handle_argument x options (sg @ ds @ '' '' @ p) st =
           (case handle_file_entry x (head st) p n options of
              Some head' \<Rightarrow>
                (0, say [HandleEntry p n] (st\<lparr>head := head', totalfiles := totalfiles st + 1\<rparr>))
            | None \<Rightarrow>
                (1, say [HandleEntry p n, Stderr ''handle_argument(): cannot add file entry''] st)) \<and>
         handle_argument (with_spec x) options (sg @ ds @ '' '' @ p) st =
           (0, say [HandleEntry p n]
                 (st\<lparr>head := head st @ [\<lparr>fe_path = p, fe_size = n, fe_partition_index = None\<rparr>],
                     totalfiles := totalfiles st + 1\<rparr>))"
proof -
  have m: "malloc_ok (with_spec x) (length (sg @ ds @ '' '' @ p) + 1)"
    using assms(8) by (simp add: with_spec_def)
  have h: "handle_file_entry (with_spec x) = spec_handle_file_entry"
    by (simp add: with_spec_def)
  have a: "handle_argument x options (sg @ ds @ '' '' @ p) st =
           (case handle_file_entry x (head st) p n options of
              Some head' \<Rightarrow>
                (0, say [HandleEntry p n] (st\<lparr>head := head', totalfiles := totalfiles st + 1\<rparr>))
            | None \<Rightarrow>
                (1, say [HandleEntry p n, Stderr ''handle_argument(): cannot add file entry''] st))"
    unfolding handle_argument_def sscanf_signed_line [OF assms(2-7)] assms(9)
    using assms(1,8) by simp
  have b: "handle_argument (with_spec x) options (sg @ ds @ '' '' @ p) st =
           (0, say [HandleEntry p n]
                 (st\<lparr>head := head st @ [\<lparr>fe_path = p, fe_size = n, fe_partition_index = None\<rparr>],
                     totalfiles := totalfiles st + 1\<rparr>))"
    unfolding handle_argument_def sscanf_signed_line [OF assms(2-7)] h
    using assms(1,9) m by (simp add: spec_handle_file_entry_def)
  show ?thesis using a b by simp
qed

theorem handle_argument_keeps_negative_size_witness:
  "handle_argument sample_host (init_options\<lparr>arbitrary_values := True\<rparr>) ''-12 a b''
     \<lparr>totalfiles = 0, head = [], log = []\<rparr> =
   (0, \<lparr>totalfiles = 1, head = [\<lparr>fe_path = ''a b'', fe_size = - 12, fe_partition_index = None\<rparr>],
        log = [HandleEntry ''a b'' (- 12)]\<rparr>)"
  using handle_argument_keeps_negative_size
    [of "init_options\<lparr>arbitrary_values := True\<rparr>" "''-''" "''12''" "''a b''" sample_host
      "- 12" "\<lparr>totalfiles = 0, head = [], log = []\<rparr>"]
  by (simp add: sample_host_def with_spec_def isspace_def spec_handle_file_entry_def
      isdigit_def digits_val_def digit_val_def saturate_def LLONG_MAX_def say_def)

text \<open>
  The claim C1 as stated fails: the line \<^verbatim>\<open>-5 foo\<close> adds an entry of size \<open>-5\<close>.
\<close>

theorem negative_size_entry_added:
  "handle_argument sample_host (init_options\<lparr>arbitrary_values := True\<rparr>) ''-5 foo''
     \<lparr>totalfiles = 0, head = [], log = []\<rparr> =
   (0, \<lparr>totalfiles = 1, head = [\<lparr>fe_path = ''foo'', fe_size = - 5, fe_partition_index = None\<rparr>],
        log = [HandleEntry ''foo'' (- 5)]\<rparr>)"
  by (simp add: sample_host_def with_spec_def sscanf_lld_path_def scan_decimal_def isspace_def
      isdigit_def digits_val_def digit_val_def saturate_def LLONG_MAX_def handle_argument_def
      say_def spec_handle_file_entry_def)


section \<open>The size options\<close>

text \<open>
  Claim C3, as the code has it. The option \<^verbatim>\<open>-p\<close> accepts every value from 1 to the
  largest \<^verbatim>\<open>long long\<close>: for such a \<open>P\<close>, written in decimal, the option is taken, the
  option loop goes on and \<^verbatim>\<open>preload_size\<close> is \<open>P\<close>. The value 0 is refused with the
  message of the option, the usage and the exit code 1; a preload of 0 is what a run without
  \<^verbatim>\<open>-p\<close> has.
\<close>

theorem preload_option_accepts_positive:
  assumes "1 \<le> P" and "P \<le> LLONG_MAX"
  shows "handle_option x options (CHR ''p'') (decimal (nat P)) =
           Inr (options\<lparr>preload_size := P\<rparr>) \<and>
         getopt_loop x options ((CHR ''p'', decimal (nat P)) # rest) =
           getopt_loop x (options\<lparr>preload_size := P\<rparr>) rest \<and>
         handle_option x options (CHR ''p'') (decimal 0) =
           Inl (1, [Stderr ''Option -p requires a value greater than 0.'', Usage]) \<and>
         preload_size init_options = 0"
proof -
  have ne: "decimal (nat P) \<noteq> []" "decimal 0 \<noteq> []"
    using decimal_digits by blast+
  have s: "strtoll (decimal (nat P)) = (P, [])"
    using strtoll_decimal [of "nat P"] assms by simp
  have z: "strtoll (decimal 0) = (0, [])"
    using strtoll_decimal [of 0] by (simp add: LLONG_MAX_def)
  have a: "handle_option x options (CHR ''p'') (decimal (nat P)) =
             Inr (options\<lparr>preload_size := P\<rparr>)"
    using assms(1) ne by (simp add: handle_option_def s)
  have b: "handle_option x options (CHR ''p'') (decimal 0) =
             Inl (1, [Stderr ''Option -p requires a value greater than 0.'', Usage])"
    using ne by (simp add: handle_option_def z)
  show ?thesis using a b by (simp add: init_options_def)
qed

theorem preload_option_accepts_positive_witness:
  "handle_option sample_host init_options (CHR ''p'') ''4096'' =
     Inr (init_options\<lparr>preload_size := 4096\<rparr>)"
  using preload_option_accepts_positive [of 4096 sample_host init_options "[]"]
  by (simp add: LLONG_MAX_def decimal.simps digit_char_def)

text \<open>
  The claim C3 as stated fails at 0: the run \<^verbatim>\<open>fpart -n 2 -p 0\<close> is rejected with the
  usage and the exit code 1.
\<close>

theorem preload_zero_rejected:
  "main sample_host [(CHR ''n'', ''2''), (CHR ''p'', ''0'')] [] =
     (1, [Stderr ''Option -p requires a value greater than 0.'', Usage])"
  by (simp add: main_def handle_option_def strtol_def strtoll_def scan_decimal_def isspace_def
      isdigit_def digits_val_def digit_val_def saturate_def LLONG_MAX_def sample_host_def
      with_spec_def)

text \<open>
  Claim C4, as the code has it. The option \<^verbatim>\<open>-q\<close> accepts every value from 1 to the
  largest \<^verbatim>\<open>long long\<close>: for such a \<open>Q\<close>, written in decimal, the option is taken, the
  option loop goes on and \<^verbatim>\<open>overload_size\<close> is \<open>Q\<close>. The value 0 is refused with the
  message of the option, the usage and the exit code 1; an overload of 0 is what a run without
  \<^verbatim>\<open>-q\<close> has.
\<close>

theorem overload_option_accepts_positive:
  assumes "1 \<le> Q" and "Q \<le> LLONG_MAX"
  shows "handle_option x options (CHR ''q'') (decimal (nat Q)) =
           Inr (options\<lparr>overload_size := Q\<rparr>) \<and>
         getopt_loop x options ((CHR ''q'', decimal (nat Q)) # rest) =
           getopt_loop x (options\<lparr>overload_size := Q\<rparr>) rest \<and>
         handle_option x options (CHR ''q'') (decimal 0) =
           Inl (1, [Stderr ''Option -q requires a value greater than 0.'', Usage]) \<and>
         overload_size init_options = 0"
proof -
  have ne: "decimal (nat Q) \<noteq> []" "decimal 0 \<noteq> []"
    using decimal_digits by blast+
  have s: "strtoll (decimal (nat Q)) = (Q, [])"
    using strtoll_decimal [of "nat Q"] assms by simp
  have z: "strtoll (decimal 0) = (0, [])"
    using strtoll_decimal [of 0] by (simp add: LLONG_MAX_def)
  have a: "handle_option x options (CHR ''q'') (decimal (nat Q)) =
             Inr (options\<lparr>overload_size := Q\<rparr>)"
    using assms(1) ne by (simp add: handle_option_def s)
  have b: "handle_option x options (CHR ''q'') (decimal 0) =
             Inl (1, [Stderr ''Option -q requires a value greater than 0.'', Usage])"
    using ne by (simp add: handle_option_def z)
  show ?thesis using a b by (simp add: init_options_def)
qed

theorem overload_option_accepts_positive_witness:
  "handle_option sample_host init_options (CHR ''q'') ''4096'' =
     Inr (init_options\<lparr>overload_size := 4096\<rparr>)"
  using overload_option_accepts_positive [of 4096 sample_host init_options "[]"]
  by (simp add: LLONG_MAX_def decimal.simps digit_char_def)

text \<open>
  The claim C4 as stated fails at 0: the run \<^verbatim>\<open>fpart -n 2 -q 0\<close> is rejected with the
  usage and the exit code 1.
\<close>

theorem overload_zero_rejected:
  "main sample_host [(CHR ''n'', ''2''), (CHR ''q'', ''0'')] [] =
     (1, [Stderr ''Option -q requires a value greater than 0.'', Usage])"
  by (simp add: main_def handle_option_def strtol_def strtoll_def scan_decimal_def isspace_def
      isdigit_def digits_val_def digit_val_def saturate_def LLONG_MAX_def sample_host_def
      with_spec_def)

section \<open>The option loop and the consistency checks\<close>

lemma handle_option_frame:
  assumes "handle_option x options ch optarg = Inr options'"
  shows "(ch \<noteq> CHR ''n'' \<longrightarrow> num_parts options' = num_parts options) \<and>
         (ch \<noteq> CHR ''f'' \<longrightarrow> max_entries options' = max_entries options) \<and>
         (ch \<noteq> CHR ''s'' \<longrightarrow> max_size options' = max_size options) \<and>
         (ch \<noteq> CHR ''i'' \<longrightarrow> in_filename options' = in_filename options) \<and>
         (live_mode options \<longrightarrow> live_mode options')"
  using assms unfolding handle_option_def
  by (auto split: if_splits prod.splits option.splits)

lemma handle_option_sets:
  assumes "handle_option x options ch optarg = Inr options'"
  shows "(ch = CHR ''n'' \<longrightarrow> (\<exists>v>0. num_parts options' = pnum_t_of x v)) \<and>
         (ch = CHR ''f'' \<longrightarrow> 0 < max_entries options') \<and>
         (ch = CHR ''s'' \<longrightarrow> 0 < max_size options') \<and>
         (ch = CHR ''L'' \<longrightarrow> live_mode options')"
  using assms unfolding handle_option_def
  by (auto split: if_splits prod.splits option.splits simp: not_le)

lemma getopt_loop_Cons:
  assumes "getopt_loop x options ((ch, optarg) # getopts) = Inr options'"
  obtains o1 where "handle_option x options ch optarg = Inr o1"
    and "getopt_loop x o1 getopts = Inr options'"
  using assms by (auto split: sum.splits)

lemma getopt_loop_unchanged:
  assumes frame: "\<And>opts c a opts'. handle_option x opts c a = Inr opts' \<Longrightarrow> c \<noteq> k \<Longrightarrow> f opts' = f opts"
    and "getopt_loop x options getopts = Inr options'"
    and "k \<notin> fst ` set getopts"
  shows "f options' = f options"
  using assms(2,3)
proof (induction getopts arbitrary: options)
  case Nil
  then show ?case by simp
next
  case (Cons a getopts)
  obtain ch optarg where a: "a = (ch, optarg)" by (cases a)
  from Cons.prems(1) obtain o1 where
    o1: "handle_option x options ch optarg = Inr o1" and
    rest: "getopt_loop x o1 getopts = Inr options'"
    unfolding a by (rule getopt_loop_Cons)
  have "ch \<noteq> k" and "k \<notin> fst ` set getopts"
    using Cons.prems(2) by (auto simp: a)
  then show ?case
    using Cons.IH [OF rest] frame [OF o1] by simp
qed

lemma getopt_loop_established:
  assumes keep: "\<And>opts c a opts'. handle_option x opts c a = Inr opts' \<Longrightarrow> Q opts \<Longrightarrow> Q opts'"
    and make: "\<And>opts a opts'. handle_option x opts k a = Inr opts' \<Longrightarrow> Q opts'"
    and "getopt_loop x options getopts = Inr options'"
    and "Q options \<or> k \<in> fst ` set getopts"
  shows "Q options'"
  using assms(3,4)
proof (induction getopts arbitrary: options)
  case Nil
  then show ?case by simp
next
  case (Cons a getopts)
  obtain ch optarg where a: "a = (ch, optarg)" by (cases a)
  from Cons.prems(1) obtain o1 where
    o1: "handle_option x options ch optarg = Inr o1" and
    rest: "getopt_loop x o1 getopts = Inr options'"
    unfolding a by (rule getopt_loop_Cons)
  have "Q o1 \<or> k \<in> fst ` set getopts"
  proof (cases "Q options")
    case True
    then show ?thesis using keep [OF o1] by simp
  next
    case False
    with Cons.prems(2) have "ch = k \<or> k \<in> fst ` set getopts" by (auto simp: a)
    then show ?thesis using make o1 by auto
  qed
  then show ?case by (rule Cons.IH [OF rest])
qed

lemma handle_option_frame_hooks:
  assumes "handle_option x options ch optarg = Inr options'"
  shows "(ch \<noteq> CHR ''w'' \<longrightarrow> pre_part_hook options' = pre_part_hook options) \<and>
         (ch \<noteq> CHR ''W'' \<longrightarrow> post_part_hook options' = post_part_hook options)"
  using assms unfolding handle_option_def
  by (auto split: if_splits prod.splits option.splits)

lemma getopt_loop_num_parts:
  assumes "getopt_loop x options getopts = Inr options'"
    and "CHR ''n'' \<notin> fst ` set getopts"
  shows "num_parts options' = num_parts options"
  by (rule getopt_loop_unchanged [where f = num_parts and k = "CHR ''n''", OF _ assms])
    (use handle_option_frame in blast)

lemma getopt_loop_max_entries:
  assumes "getopt_loop x options getopts = Inr options'"
    and "CHR ''f'' \<notin> fst ` set getopts"
  shows "max_entries options' = max_entries options"
  by (rule getopt_loop_unchanged [where f = max_entries and k = "CHR ''f''", OF _ assms])
    (use handle_option_frame in blast)

lemma getopt_loop_max_size:
  assumes "getopt_loop x options getopts = Inr options'"
    and "CHR ''s'' \<notin> fst ` set getopts"
  shows "max_size options' = max_size options"
  by (rule getopt_loop_unchanged [where f = max_size and k = "CHR ''s''", OF _ assms])
    (use handle_option_frame in blast)

lemma getopt_loop_in_filename:
  assumes "getopt_loop x options getopts = Inr options'"
    and "CHR ''i'' \<notin> fst ` set getopts"
  shows "in_filename options' = in_filename options"
  by (rule getopt_loop_unchanged [where f = in_filename and k = "CHR ''i''", OF _ assms])
    (use handle_option_frame in blast)

lemma getopt_loop_pre_part_hook:
  assumes "getopt_loop x options getopts = Inr options'"
    and "CHR ''w'' \<notin> fst ` set getopts"
  shows "pre_part_hook options' = pre_part_hook options"
  by (rule getopt_loop_unchanged [where f = pre_part_hook and k = "CHR ''w''", OF _ assms])
    (use handle_option_frame_hooks in blast)

lemma getopt_loop_post_part_hook:
  assumes "getopt_loop x options getopts = Inr options'"
    and "CHR ''W'' \<notin> fst ` set getopts"
  shows "post_part_hook options' = post_part_hook options"
  by (rule getopt_loop_unchanged [where f = post_part_hook and k = "CHR ''W''", OF _ assms])
    (use handle_option_frame_hooks in blast)

lemma getopt_loop_sets_max_entries:
  assumes "getopt_loop x options getopts = Inr options'"
    and "0 < max_entries options \<or> CHR ''f'' \<in> fst ` set getopts"
  shows "0 < max_entries options'"
proof (rule getopt_loop_established [where Q = "\<lambda>opts. 0 < max_entries opts" and k = "CHR ''f''", OF _ _ assms])
  fix opts c a opts'
  assume h: "handle_option x opts c a = Inr opts'" and q: "0 < max_entries opts"
  show "0 < max_entries opts'"
    using handle_option_frame [OF h] handle_option_sets [OF h] q by (cases "c = CHR ''f''") auto
next
  fix opts a opts'
  assume "handle_option x opts (CHR ''f'') a = Inr opts'"
  then show "0 < max_entries opts'" using handle_option_sets by blast
qed

lemma getopt_loop_sets_max_size:
  assumes "getopt_loop x options getopts = Inr options'"
    and "0 < max_size options \<or> CHR ''s'' \<in> fst ` set getopts"
  shows "0 < max_size options'"
proof (rule getopt_loop_established [where Q = "\<lambda>opts. 0 < max_size opts" and k = "CHR ''s''", OF _ _ assms])
  fix opts c a opts'
  assume h: "handle_option x opts c a = Inr opts'" and q: "0 < max_size opts"
  show "0 < max_size opts'"
    using handle_option_frame [OF h] handle_option_sets [OF h] q by (cases "c = CHR ''s''") auto
next
  fix opts a opts'
  assume "handle_option x opts (CHR ''s'') a = Inr opts'"
  then show "0 < max_size opts'" using handle_option_sets by blast
qed

lemma getopt_loop_sets_live_mode:
  assumes "getopt_loop x options getopts = Inr options'"
    and "live_mode options \<or> CHR ''L'' \<in> fst ` set getopts"
  shows "live_mode options'"
proof (rule getopt_loop_established [where Q = live_mode and k = "CHR ''L''", OF _ _ assms])
  fix opts c a opts'
  assume "handle_option x opts c a = Inr opts'" and "live_mode opts"
  then show "live_mode opts'" using handle_option_frame by blast
next
  fix opts a opts'
  assume "handle_option x opts (CHR ''L'') a = Inr opts'"
  then show "live_mode opts'" using handle_option_sets by blast
qed

text \<open>
  Claim C2, as the code has it. For a run whose options are all accepted by the option loop
  (no \<^verbatim>\<open>-h\<close>, \<^verbatim>\<open>-V\<close>, unknown option or refused value ends it there):
  \<^item> if none of \<^verbatim>\<open>-n\<close>, \<^verbatim>\<open>-f\<close>, \<^verbatim>\<open>-s\<close> is given, the run ends with the message
    \<^verbatim>\<open>Please specify either -n, -f or -s.\<close>, the usage and the exit code 1; no input has
    been opened or read and no path crawled;
  \<^item> if \<^verbatim>\<open>-n\<close> has set the number of partitions and \<^verbatim>\<open>-f\<close>, \<^verbatim>\<open>-s\<close> or \<^verbatim>\<open>-L\<close> is given
    too, the run ends with the message that \<^verbatim>\<open>-n\<close> is incompatible with them, the usage
    and the exit code 1; no input has been opened or read and no path crawled;
  \<^item> \<^verbatim>\<open>-f\<close> and \<^verbatim>\<open>-s\<close> may be given together: without \<^verbatim>\<open>-n\<close> and without hooks, a run
    that gives one or both of them passes the consistency checks.
\<close>

theorem selector_checks:
  assumes "getopt_loop x init_options getopts = Inr options"
  shows "(CHR ''n'' \<notin> fst ` set getopts \<and> CHR ''f'' \<notin> fst ` set getopts \<and>
          CHR ''s'' \<notin> fst ` set getopts \<longrightarrow>
            main x getopts argv = (1, [Stderr ''Please specify either -n, -f or -s.'', Usage])) \<and>
         (num_parts options \<noteq> DFLT_OPT_NUM_PARTS \<and>
          (CHR ''f'' \<in> fst ` set getopts \<or> CHR ''s'' \<in> fst ` set getopts \<or>
           CHR ''L'' \<in> fst ` set getopts) \<longrightarrow>
            main x getopts argv =
              (1, [Stderr ''Option -n is incompatible with options -f, -s and -L.'', Usage])) \<and>
         (CHR ''n'' \<notin> fst ` set getopts \<and>
          (CHR ''f'' \<in> fst ` set getopts \<or> CHR ''s'' \<in> fst ` set getopts) \<and>
          CHR ''w'' \<notin> fst ` set getopts \<and> CHR ''W'' \<notin> fst ` set getopts \<longrightarrow>
            check_options options = None)"
proof (intro conjI impI)
  assume "CHR ''n'' \<notin> fst ` set getopts \<and> CHR ''f'' \<notin> fst ` set getopts \<and>
          CHR ''s'' \<notin> fst ` set getopts"
  then have "num_parts options = DFLT_OPT_NUM_PARTS" "max_entries options = DFLT_OPT_MAX_ENTRIES"
    "max_size options = DFLT_OPT_MAX_SIZE"
    using getopt_loop_num_parts [OF assms] getopt_loop_max_entries [OF assms]
      getopt_loop_max_size [OF assms]
    by (simp_all add: init_options_def)
  then show "main x getopts argv = (1, [Stderr ''Please specify either -n, -f or -s.'', Usage])"
    by (simp add: main_def assms check_options_def)
next
  assume h: "num_parts options \<noteq> DFLT_OPT_NUM_PARTS \<and>
          (CHR ''f'' \<in> fst ` set getopts \<or> CHR ''s'' \<in> fst ` set getopts \<or>
           CHR ''L'' \<in> fst ` set getopts)"
  then have "0 < max_entries options \<or> 0 < max_size options \<or> live_mode options"
    using getopt_loop_sets_max_entries [OF assms] getopt_loop_sets_max_size [OF assms]
      getopt_loop_sets_live_mode [OF assms] by blast
  then have "max_entries options \<noteq> DFLT_OPT_MAX_ENTRIES \<or> max_size options \<noteq> DFLT_OPT_MAX_SIZE \<or>
     live_mode options"
    by (auto simp: DFLT_OPT_MAX_ENTRIES_def DFLT_OPT_MAX_SIZE_def)
  with h show "main x getopts argv =
      (1, [Stderr ''Option -n is incompatible with options -f, -s and -L.'', Usage])"
    by (simp add: main_def assms check_options_def)
next
  assume h: "CHR ''n'' \<notin> fst ` set getopts \<and>
          (CHR ''f'' \<in> fst ` set getopts \<or> CHR ''s'' \<in> fst ` set getopts) \<and>
          CHR ''w'' \<notin> fst ` set getopts \<and> CHR ''W'' \<notin> fst ` set getopts"
  then have n: "num_parts options = DFLT_OPT_NUM_PARTS"
    and w: "pre_part_hook options = None" "post_part_hook options = None"
    using getopt_loop_num_parts [OF assms] getopt_loop_pre_part_hook [OF assms]
      getopt_loop_post_part_hook [OF assms]
    by (simp_all add: init_options_def)
  from h have "0 < max_entries options \<or> 0 < max_size options"
    using getopt_loop_sets_max_entries [OF assms] getopt_loop_sets_max_size [OF assms] by blast
  then have "max_entries options \<noteq> DFLT_OPT_MAX_ENTRIES \<or> max_size options \<noteq> DFLT_OPT_MAX_SIZE"
    by (auto simp: DFLT_OPT_MAX_ENTRIES_def DFLT_OPT_MAX_SIZE_def)
  with n w show "check_options options = None"
    by (auto simp: check_options_def)
qed

theorem selector_checks_witness:
  "main sample_host [(CHR ''v'', '''')] [''/tmp''] =
     (1, [Stderr ''Please specify either -n, -f or -s.'', Usage]) \<and>
   main sample_host [(CHR ''n'', ''2''), (CHR ''f'', ''3'')] [''/tmp''] =
     (1, [Stderr ''Option -n is incompatible with options -f, -s and -L.'', Usage]) \<and>
   check_options (init_options\<lparr>max_entries := 10, max_size := 100\<rparr>) = None"
  using selector_checks [of sample_host "[(CHR ''v'', '''')]" "init_options\<lparr>verbose := 1\<rparr>" "[''/tmp'']"]
    selector_checks [of sample_host "[(CHR ''n'', ''2''), (CHR ''f'', ''3'')]"
      "init_options\<lparr>num_parts := 2, max_entries := 3\<rparr>" "[''/tmp'']"]
    selector_checks [of sample_host "[(CHR ''f'', ''10''), (CHR ''s'', ''100'')]"
      "init_options\<lparr>max_entries := 10, max_size := 100\<rparr>" "[]"]
  by (simp add: run_option_defs sample_host_def with_spec_def init_options_def
      DFLT_OPT_NUM_PARTS_def)

text \<open>
  The claim C2 as stated fails for more than one selector: the run
  \<^verbatim>\<open>fpart -f 10 -s 100 /tmp\<close> gives two of them and is not rejected. It crawls the path,
  dispatches by limits, writes its output and ends with the exit code 0.
\<close>

theorem two_limits_accepted:
  "main sample_host [(CHR ''f'', ''10''), (CHR ''s'', ''100'')] [''/tmp''] =
     (0, [Crawl ''/tmp'', StatusFound 1, DispatchByLimits, Assign 0 0,
          PrintPartitions [\<lparr>p_size = 1, p_num_files = 1\<rparr>],
          PrintFileEntries [\<lparr>fe_path = ''/tmp'', fe_size = 1, fe_partition_index = Some 0\<rparr>] None 1])"
  by (simp add: main_def run_option_defs sample_host_def with_spec_def init_options_def
      check_options_def force_stdin_def ingest_def read_input_def handle_argument_def
      crawl_path_def remove_ending_slashes.simps say_def finish_def assigns_def
      DFLT_OPT_NUM_PARTS_def DFLT_OPT_MAX_ENTRIES_def DFLT_OPT_MAX_SIZE_def OPT_VERBOSE_def)

section \<open>The empty result\<close>

lemma handle_argument_quiet:
  "quiet st \<Longrightarrow> quiet (snd (handle_argument x options a st))"
  by (auto simp: handle_argument_def crawl_path_def say_def quiet_def
      split: option.splits prod.splits)

lemma read_lines_quiet:
  "quiet st \<Longrightarrow> quiet (snd (read_lines x options ls st))"
proof (induction ls arbitrary: st)
  case Nil
  then show ?case by simp
next
  case (Cons l ls)
  obtain r st' where h: "handle_argument x options (takeWhile (\<lambda>c. c \<noteq> CHR 0x0A) l) st = (r, st')"
    by (cases "handle_argument x options (takeWhile (\<lambda>c. c \<noteq> CHR 0x0A) l) st")
  have "quiet st'" using handle_argument_quiet [OF Cons.prems, of x options] h
    by (metis snd_conv)
  then show ?case using Cons.IH [of st'] h by simp
qed

lemma handle_arguments_quiet:
  "quiet st \<Longrightarrow> quiet (snd (handle_arguments x options as st))"
proof (induction as arbitrary: st)
  case Nil
  then show ?case by simp
next
  case (Cons a as)
  obtain r st' where h: "handle_argument x options a st = (r, st')"
    by (cases "handle_argument x options a st")
  have "quiet st'" using handle_argument_quiet [OF Cons.prems, of x options a] h by simp
  then show ?case using Cons.IH [of st'] h by simp
qed

lemma say_quiet:
  "quiet st \<Longrightarrow> \<forall>e\<in>set es. \<not> is_dispatch_or_output e \<Longrightarrow> quiet (say es st)"
  by (auto simp: quiet_def say_def)

lemma read_stream_quiet:
  "quiet st \<Longrightarrow> quiet (snd (read_stream x options in_fp st))"
  using read_lines_quiet [of st x options "chunks in_fp"]
  by (auto simp: read_stream_def say_quiet split: prod.splits)

lemma read_input_quiet:
  "quiet st \<Longrightarrow> quiet (snd (read_input x options st))"
  by (auto simp: read_input_def say_quiet read_stream_quiet split: option.splits)

lemma ingest_quiet: "quiet (snd (ingest x options argv))"
proof -
  let ?st0 = "\<lparr>totalfiles = 0, head = [],
                log = (if verbose options \<ge> OPT_VERBOSE then [Stderr ''Examining filesystem...'']
                       else [])\<rparr>"
  have q0: "quiet ?st0" by (simp add: quiet_def)
  obtain r st1 where h: "read_input x options ?st0 = (r, st1)"
    by (cases "read_input x options ?st0")
  have "quiet st1" using read_input_quiet [OF q0, of x options] h by simp
  then show ?thesis
    using handle_arguments_quiet [of st1 x options argv] h
    by (simp add: ingest_def Let_def)
qed

text \<open>
  Claim C6. A run that gets through the option handling and whose ingestion completes with
  a count of files of zero reports the count (\<^verbatim>\<open>0 file(s) found.\<close>) and ends with the exit
  code 0; up to then the run has neither dispatched nor written anything: no entry is
  assigned to a partition, no summary and no manifest is printed. (This holds in live mode
  as well.)
\<close>

theorem empty_result_exits_zero:
  assumes "getopt_loop x init_options getopts = Inr options0"
    and "check_options options0 = None"
    and "force_stdin x options0 argv = Some options"
    and "ingest x options argv = (0, st)"
    and "totalfiles st = 0"
  shows "main x getopts argv = (0, log st @ [StatusFound 0]) \<and>
         (\<forall>e\<in>set (log st @ [StatusFound 0]). \<not> is_dispatch_or_output e)"
proof -
  have "quiet st" using ingest_quiet [of x options argv] assms(4) by simp
  then show ?thesis
    using assms by (simp add: main_def finish_def quiet_def)
qed

theorem empty_result_exits_zero_witness:
  "main (sample_host\<lparr>stdin := \<lparr>chunks = [[CHR 0x0A], ''//''], read_error = False\<rparr>,
                       init_file_entries := (\<lambda>p es n options. Some (es, n))\<rparr>)
        [(CHR ''n'', ''2'')] [] =
     (0, [Crawl ''/'', StatusFound 0])"
  using empty_result_exits_zero
    [of "sample_host\<lparr>stdin := \<lparr>chunks = [[CHR 0x0A], ''//''], read_error = False\<rparr>,
                       init_file_entries := (\<lambda>p es n options. Some (es, n))\<rparr>"
        "[(CHR ''n'', ''2'')]" "init_options\<lparr>num_parts := 2\<rparr>" "[]"
        "init_options\<lparr>num_parts := 2, in_filename := Some ''-''\<rparr>"
        "\<lparr>totalfiles = 0, head = [], log = [Crawl ''/'']\<rparr>"]
  by (simp add: run_option_defs sample_host_def with_spec_def init_options_def
      check_options_def force_stdin_def ingest_def read_input_def read_stream_def
      handle_argument_def crawl_path_def remove_ending_slashes.simps say_def
      DFLT_OPT_NUM_PARTS_def DFLT_OPT_MAX_ENTRIES_def DFLT_OPT_MAX_SIZE_def OPT_VERBOSE_def)

section \<open>The default input\<close>

lemma getopt_loop_append:
  "getopt_loop x options (as @ bs) =
     (case getopt_loop x options as of Inl r \<Rightarrow> Inl r | Inr options' \<Rightarrow> getopt_loop x options' bs)"
  by (induction as arbitrary: options) (auto split: sum.splits)

lemma handle_option_i_dash:
  "abs_path x ''-'' = Some ''-'' \<Longrightarrow>
   handle_option x options (CHR ''i'') ''-'' = Inr (options\<lparr>in_filename := Some ''-''\<rparr>)"
  by (simp add: handle_option_def)

lemma check_options_in_filename:
  "check_options (options\<lparr>in_filename := f\<rparr>) = check_options options"
  by (simp add: check_options_def)

lemma read_stream_code: "fst (read_stream x options in_fp st) \<in> {0, 1}"
  by (auto simp: read_stream_def split: prod.splits)

lemma ingest_stdin:
  assumes "in_filename options = Some ''-''"
  shows "ingest x options [] =
           read_stream x options (stdin x)
             \<lparr>totalfiles = 0, head = [],
              log = (if verbose options \<ge> OPT_VERBOSE then [Stderr ''Examining filesystem...'']
                     else [])\<rparr>"
proof -
  let ?st0 = "\<lparr>totalfiles = 0, head = [],
              log = (if verbose options \<ge> OPT_VERBOSE then [Stderr ''Examining filesystem...'']
                     else [])\<rparr>"
  obtain r st where h: "read_stream x options (stdin x) ?st0 = (r, st)"
    by (cases "read_stream x options (stdin x) ?st0")
  have "r = 0 \<or> r = 1" using read_stream_code [of x options "stdin x" ?st0] h by simp
  then show ?thesis
    using h assms by (auto simp: ingest_def read_input_def Let_def)
qed

text \<open>
  Claim C9. When no \<^verbatim>\<open>-i\<close> and no path argument is given, the input is stdin: the run
  is the same as the run with \<^verbatim>\<open>-i -\<close> added; when the options are accepted, the name of
  the input is forced to \<^verbatim>\<open>-\<close> and the ingestion is the reading of stdin. (Here
  \<^verbatim>\<open>abs_path\<close> keeps \<^verbatim>\<open>-\<close> as it is, which is what lets \<^verbatim>\<open>-i -\<close> mean stdin at all, and
  the two bytes for the forced name can be allocated.)
\<close>

theorem stdin_by_default:
  assumes "CHR ''i'' \<notin> fst ` set getopts"
    and "abs_path x ''-'' = Some ''-''"
    and "malloc_ok x (length ''-'' + 1)"
    and "getopt_loop x init_options getopts = Inr options"
  shows "main x getopts [] = main x (getopts @ [(CHR ''i'', ''-'')]) [] \<and>
         force_stdin x options [] = Some (options\<lparr>in_filename := Some ''-''\<rparr>) \<and>
         ingest x (options\<lparr>in_filename := Some ''-''\<rparr>) [] =
           read_stream x (options\<lparr>in_filename := Some ''-''\<rparr>) (stdin x)
             \<lparr>totalfiles = 0, head = [],
              log = (if verbose options \<ge> OPT_VERBOSE then [Stderr ''Examining filesystem...'']
                     else [])\<rparr>"
proof -
  let ?o = "options\<lparr>in_filename := Some ''-''\<rparr>"
  have none: "in_filename options = None"
    using getopt_loop_in_filename [OF assms(4,1)] by (simp add: init_options_def)
  have f1: "force_stdin x options [] = Some ?o"
    using none assms(3) by (simp add: force_stdin_def)
  have f2: "force_stdin x ?o [] = Some ?o"
    by (simp add: force_stdin_def)
  have l2: "getopt_loop x init_options (getopts @ [(CHR ''i'', ''-'')]) = Inr ?o"
    using assms(4) handle_option_i_dash [OF assms(2), of options]
    by (simp add: getopt_loop_append)
  have "main x getopts [] = main x (getopts @ [(CHR ''i'', ''-'')]) []"
    unfolding main_def l2 assms(4)
    by (cases "check_options options") (simp_all add: check_options_in_filename f1 f2)
  moreover have "ingest x ?o [] = read_stream x ?o (stdin x)
             \<lparr>totalfiles = 0, head = [],
              log = (if verbose options \<ge> OPT_VERBOSE then [Stderr ''Examining filesystem...'']
                     else [])\<rparr>"
    using ingest_stdin [of ?o x] by simp
  ultimately show ?thesis using f1 by simp
qed

theorem stdin_by_default_witness:
  "main (sample_host\<lparr>stdin := \<lparr>chunks = [''/tmp'' @ [CHR 0x0A]], read_error = False\<rparr>\<rparr>)
        [(CHR ''n'', ''1'')] [] =
     (0, [Crawl ''/tmp'', StatusFound 1, Assign 0 0,
          PrintPartitions [\<lparr>p_size = 1, p_num_files = 1\<rparr>],
          PrintFileEntries [\<lparr>fe_path = ''/tmp'', fe_size = 1, fe_partition_index = Some 0\<rparr>] None 1]) \<and>
   main (sample_host\<lparr>stdin := \<lparr>chunks = [''/tmp'' @ [CHR 0x0A]], read_error = False\<rparr>\<rparr>)
        [(CHR ''n'', ''1''), (CHR ''i'', ''-'')] [] =
     (0, [Crawl ''/tmp'', StatusFound 1, Assign 0 0,
          PrintPartitions [\<lparr>p_size = 1, p_num_files = 1\<rparr>],
          PrintFileEntries [\<lparr>fe_path = ''/tmp'', fe_size = 1, fe_partition_index = Some 0\<rparr>] None 1])"
proof -
  let ?x = "sample_host\<lparr>stdin := \<lparr>chunks = [''/tmp'' @ [CHR 0x0A]], read_error = False\<rparr>\<rparr>"
  have e: "main ?x [(CHR ''n'', ''1'')] [] = main ?x ([(CHR ''n'', ''1'')] @ [(CHR ''i'', ''-'')]) []"
    using stdin_by_default [of "[(CHR ''n'', ''1'')]" ?x "init_options\<lparr>num_parts := 1\<rparr>"]
    by (simp add: run_option_defs sample_host_def with_spec_def)
  have v: "main ?x [(CHR ''n'', ''1'')] [] =
     (0, [Crawl ''/tmp'', StatusFound 1, Assign 0 0,
          PrintPartitions [\<lparr>p_size = 1, p_num_files = 1\<rparr>],
          PrintFileEntries [\<lparr>fe_path = ''/tmp'', fe_size = 1, fe_partition_index = Some 0\<rparr>] None 1])"
    by (simp add: run_main_defs)
  show ?thesis using e v by simp
qed

section \<open>The fixed-N dispatch\<close>























text \<open>
  The dispatch functions modelled from the spec give the result of the spec's first
  scenario: the sizes 10, 10, 10, 10, 1 in two partitions come out as 21 and 20.
\<close>

lemma spec_scenario_fixed_balance:
  "main (sample_host\<lparr>stdin :=
           \<lparr>chunks = [''10 a'' @ [CHR 0x0A], ''10 b'' @ [CHR 0x0A], ''10 c'' @ [CHR 0x0A],
                      ''10 d'' @ [CHR 0x0A], ''1 e'' @ [CHR 0x0A]],
            read_error = False\<rparr>\<rparr>)
        [(CHR ''a'', []), (CHR ''n'', ''2'')] [] =
     (0, [HandleEntry ''a'' 10, HandleEntry ''b'' 10, HandleEntry ''c'' 10, HandleEntry ''d'' 10,
          HandleEntry ''e'' 1, StatusFound 5,
          Assign 0 0, Assign 1 1, Assign 2 0, Assign 3 1, Assign 4 0,
          PrintPartitions [\<lparr>p_size = 21, p_num_files = 3\<rparr>, \<lparr>p_size = 20, p_num_files = 2\<rparr>],
          PrintFileEntries
            [\<lparr>fe_path = ''a'', fe_size = 10, fe_partition_index = Some 0\<rparr>,
             \<lparr>fe_path = ''b'', fe_size = 10, fe_partition_index = Some 1\<rparr>,
             \<lparr>fe_path = ''c'', fe_size = 10, fe_partition_index = Some 0\<rparr>,
             \<lparr>fe_path = ''d'', fe_size = 10, fe_partition_index = Some 1\<rparr>,
             \<lparr>fe_path = ''e'', fe_size = 1, fe_partition_index = Some 0\<rparr>]
            None 2])"
  by (simp add: run_main_defs upt_rec Let_def numeral_2_eq_2)

end
